theory Spec2Isabelle
  imports Main "HOL-Library.Word"
begin

section \<open>Data model of gl_nullify.c\<close>

text \<open>
  The C types of the stubbed entry points. \<open>int\<close> and \<open>unsigned int\<close> are 32-bit words
  (read with \<open>sint\<close> resp. \<open>unat\<close>), \<open>long\<close> is a 64-bit word (x86_64), and a
  \<open>float\<close> argument is carried as its 32-bit pattern: the library only prints it.
\<close>

type_synonym c_int = "32 word"
type_synonym c_uint = "32 word"
type_synonym c_long = "64 word"
type_synonym c_float = "32 word"

text \<open>
  A pointer is either the null pointer or the address of a 32-bit cell of the caller's
  memory; \<open>p[i]\<close> is the cell \<open>i\<close> cells after \<open>p\<close>. Cells are numbered from 0, so
  \<open>Ptr 0\<close> is the first cell, not the null pointer.
\<close>

datatype ptr = NULL | Ptr nat

text \<open>One argument of a \<open>fprintf\<close> call, tagged with its C type.\<close>

datatype arg = I c_int | U c_uint | L c_long | F c_float

text \<open>
  The process state the library can touch: its static counter \<open>fake_id\<close>, the caller's
  memory (written through output pointers), and the lines sent to \<open>stderr\<close>, each kept
  as the format string with its arguments.
\<close>

record state =
  fake_id :: c_uint
  heap :: "nat \<Rightarrow> 32 word"
  stderr :: "(string \<times> arg list) list"

text \<open>\<open>static unsigned int fake_id = 1;\<close> at library load, over the caller's memory.\<close>

definition init_state :: "(nat \<Rightarrow> 32 word) \<Rightarrow> state" where
  "init_state h = \<lparr>fake_id = 1, heap = h, stderr = []\<rparr>"

definition zero_heap :: "nat \<Rightarrow> 32 word" where
  "zero_heap = (\<lambda>a. 0)"

text \<open>
  \<open>#define LOG(fmt, ...) fprintf(stderr, "[gl_nullify] " fmt "\n", ##__VA_ARGS__)\<close>
  with \<open>DEBUG_LOG\<close> set to 1.
\<close>

definition LOG :: "string \<Rightarrow> arg list \<Rightarrow> state \<Rightarrow> state" where
  "LOG fmt args s = s\<lparr>stderr := stderr s @ [(''[gl_nullify] '' @ fmt @ [CHR 0x0A], args)]\<rparr>"

text \<open>
  The assignment \<open>p[i] = v\<close>. Writing through the null pointer is the one fault of the
  model; every other address is writable caller memory. The index is signed; this
  program only ever indexes from 0 upwards.
\<close>

datatype fault = Segfault

definition store :: "ptr \<Rightarrow> c_int \<Rightarrow> 32 word \<Rightarrow> state \<Rightarrow> fault + state" where
  "store p i v s =
     (case p of
        NULL \<Rightarrow> Inl Segfault
      | Ptr a \<Rightarrow> Inr (s\<lparr>heap := (heap s)(nat (int a + sint i) := v)\<rparr>))"

section \<open>The stubbed entry points\<close>

subsection \<open>Draw calls, buffer swap, clears\<close>

definition glDrawArrays :: "c_int \<Rightarrow> c_int \<Rightarrow> c_int \<Rightarrow> state \<Rightarrow> state" where
  "glDrawArrays mode first count s =
     LOG ''glDrawArrays(mode=%d, first=%d, count=%d)'' [I mode, I first, I count] s"

definition glDrawElements :: "c_int \<Rightarrow> c_int \<Rightarrow> c_int \<Rightarrow> ptr \<Rightarrow> state \<Rightarrow> state" where
  "glDrawElements mode count type indices s =
     LOG ''glDrawElements(mode=%d, count=%d)'' [I mode, I count] s"

definition glDrawArraysInstanced :: "c_int \<Rightarrow> c_int \<Rightarrow> c_int \<Rightarrow> c_int \<Rightarrow> state \<Rightarrow> state" where
  "glDrawArraysInstanced mode first count instancecount s =
     LOG ''glDrawArraysInstanced(count=%d, instances=%d)'' [I count, I instancecount] s"

definition glDrawElementsInstanced ::
  "c_int \<Rightarrow> c_int \<Rightarrow> c_int \<Rightarrow> ptr \<Rightarrow> c_int \<Rightarrow> state \<Rightarrow> state" where
  "glDrawElementsInstanced mode count type indices instancecount s =
     LOG ''glDrawElementsInstanced(count=%d, instances=%d)'' [I count, I instancecount] s"

definition glXSwapBuffers :: "ptr \<Rightarrow> ptr \<Rightarrow> state \<Rightarrow> state" where
  "glXSwapBuffers dpy drawable s = LOG ''glXSwapBuffers'' [] s"

definition glClear :: "c_uint \<Rightarrow> state \<Rightarrow> state" where
  "glClear mask' s = LOG ''glClear(mask=0x%x)'' [U mask'] s"

definition glClearColor :: "c_float \<Rightarrow> c_float \<Rightarrow> c_float \<Rightarrow> c_float \<Rightarrow> state \<Rightarrow> state" where
  "glClearColor r g b a s = LOG ''glClearColor(%.2f, %.2f, %.2f, %.2f)'' [F r, F g, F b, F a] s"

subsection \<open>Identifier generation\<close>

text \<open>
  The loop shared, word for word, by the four generate functions:
  \<open>for (int i = 0; i < n; i++) { out[i] = fake_id++; }\<close>
  with \<open>i\<close> and \<open>n\<close> signed.
\<close>

function gen_loop :: "c_int \<Rightarrow> c_int \<Rightarrow> ptr \<Rightarrow> state \<Rightarrow> fault + state" where
  "gen_loop i n out s =
     (if i <s n then
        (case store out i (fake_id s) s of
           Inl f \<Rightarrow> Inl f
         | Inr s' \<Rightarrow> gen_loop (i + 1) n out (s'\<lparr>fake_id := fake_id s' + 1\<rparr>))
      else Inr s)"
  by pat_completeness auto

termination gen_loop
proof (relation "measure (\<lambda>(i, n, out, s). nat (sint n - sint i))")
  show "wf (measure (\<lambda>(i, n, out, s). nat (sint n - sint i)))" by simp
next
  fix i n :: "32 word" and out :: ptr and s x2 :: state
  assume "i <s n"
  then have lt: "sint i < sint n" by (simp add: word_sless_alt)
  have hi: "sint n < 2 ^ 31" using sint_lt [of n] by simp
  have lo: "- (2 ^ 31) \<le> sint i" using sint_ge [of i] by simp
  have "sint (i + 1) = signed_take_bit 31 (sint i + 1)"
    by (simp add: sint_word_ariths)
  also have "\<dots> = sint i + 1"
    using lt hi lo by (intro signed_take_bit_int_eq_self) auto
  finally have "sint (i + 1) = sint i + 1" .
  with lt show "((i + 1, n, out, x2\<lparr>fake_id := fake_id x2 + 1\<rparr>), i, n, out, s)
            \<in> measure (\<lambda>(i, n, out, s). nat (sint n - sint i))"
    by simp
qed

definition glGenTextures :: "c_int \<Rightarrow> ptr \<Rightarrow> state \<Rightarrow> fault + state" where
  "glGenTextures n textures s = gen_loop 0 n textures (LOG ''glGenTextures(n=%d)'' [I n] s)"

definition glGenBuffers :: "c_int \<Rightarrow> ptr \<Rightarrow> state \<Rightarrow> fault + state" where
  "glGenBuffers n buffers s = gen_loop 0 n buffers (LOG ''glGenBuffers(n=%d)'' [I n] s)"

definition glGenVertexArrays :: "c_int \<Rightarrow> ptr \<Rightarrow> state \<Rightarrow> fault + state" where
  "glGenVertexArrays n arrays s =
     gen_loop 0 n arrays (LOG ''glGenVertexArrays(n=%d)'' [I n] s)"

definition glGenFramebuffers :: "c_int \<Rightarrow> ptr \<Rightarrow> state \<Rightarrow> fault + state" where
  "glGenFramebuffers n framebuffers s =
     gen_loop 0 n framebuffers (LOG ''glGenFramebuffers(n=%d)'' [I n] s)"

text \<open>\<open>return fake_id++;\<close> after logging the value about to be returned.\<close>

definition glCreateShader :: "c_int \<Rightarrow> state \<Rightarrow> c_uint \<times> state" where
  "glCreateShader type s =
     (let s1 = LOG ''glCreateShader(type=0x%x) -> %u'' [I type, U (fake_id s)] s
      in (fake_id s1, s1\<lparr>fake_id := fake_id s1 + 1\<rparr>))"

definition glCreateProgram :: "state \<Rightarrow> c_uint \<times> state" where
  "glCreateProgram s =
     (let s1 = LOG ''glCreateProgram() -> %u'' [U (fake_id s)] s
      in (fake_id s1, s1\<lparr>fake_id := fake_id s1 + 1\<rparr>))"

subsection \<open>Deletes, binds, uploads and state toggles\<close>

definition glDeleteTextures :: "c_int \<Rightarrow> ptr \<Rightarrow> state \<Rightarrow> state" where
  "glDeleteTextures n textures s = LOG ''glDeleteTextures(n=%d)'' [I n] s"

definition glBindTexture :: "c_int \<Rightarrow> c_uint \<Rightarrow> state \<Rightarrow> state" where
  "glBindTexture target texture s =
     LOG ''glBindTexture(target=0x%x, texture=%u)'' [I target, U texture] s"

definition glTexImage2D ::
  "c_int \<Rightarrow> c_int \<Rightarrow> c_int \<Rightarrow> c_int \<Rightarrow> c_int \<Rightarrow> c_int \<Rightarrow> c_int \<Rightarrow> c_int \<Rightarrow> ptr \<Rightarrow> state \<Rightarrow> state" where
  "glTexImage2D target level internalformat width height border format type data s =
     LOG ''glTexImage2D(%dx%d)'' [I width, I height] s"

definition glTexSubImage2D ::
  "c_int \<Rightarrow> c_int \<Rightarrow> c_int \<Rightarrow> c_int \<Rightarrow> c_int \<Rightarrow> c_int \<Rightarrow> c_int \<Rightarrow> c_int \<Rightarrow> ptr \<Rightarrow> state \<Rightarrow> state" where
  "glTexSubImage2D target level xoffset yoffset width height format type data s =
     LOG ''glTexSubImage2D(%dx%d)'' [I width, I height] s"

definition glDeleteBuffers :: "c_int \<Rightarrow> ptr \<Rightarrow> state \<Rightarrow> state" where
  "glDeleteBuffers n buffers s = LOG ''glDeleteBuffers(n=%d)'' [I n] s"

definition glBindBuffer :: "c_int \<Rightarrow> c_uint \<Rightarrow> state \<Rightarrow> state" where
  "glBindBuffer target buffer s =
     LOG ''glBindBuffer(target=0x%x, buffer=%u)'' [I target, U buffer] s"

definition glBufferData :: "c_int \<Rightarrow> c_long \<Rightarrow> ptr \<Rightarrow> c_int \<Rightarrow> state \<Rightarrow> state" where
  "glBufferData target size' data usage s = LOG ''glBufferData(size=%ld)'' [L size'] s"

definition glBufferSubData :: "c_int \<Rightarrow> c_long \<Rightarrow> c_long \<Rightarrow> ptr \<Rightarrow> state \<Rightarrow> state" where
  "glBufferSubData target offset size' data s = LOG ''glBufferSubData(size=%ld)'' [L size'] s"

definition glDeleteShader :: "c_uint \<Rightarrow> state \<Rightarrow> state" where
  "glDeleteShader shader s = LOG ''glDeleteShader(%u)'' [U shader] s"

definition glShaderSource :: "c_uint \<Rightarrow> c_int \<Rightarrow> ptr \<Rightarrow> ptr \<Rightarrow> state \<Rightarrow> state" where
  "glShaderSource shader count string length' s =
     LOG ''glShaderSource(shader=%u)'' [U shader] s"

definition glCompileShader :: "c_uint \<Rightarrow> state \<Rightarrow> state" where
  "glCompileShader shader s = LOG ''glCompileShader(%u)'' [U shader] s"

definition glDeleteProgram :: "c_uint \<Rightarrow> state \<Rightarrow> state" where
  "glDeleteProgram program s = LOG ''glDeleteProgram(%u)'' [U program] s"

definition glAttachShader :: "c_uint \<Rightarrow> c_uint \<Rightarrow> state \<Rightarrow> state" where
  "glAttachShader program shader s =
     LOG ''glAttachShader(prog=%u, shader=%u)'' [U program, U shader] s"

definition glLinkProgram :: "c_uint \<Rightarrow> state \<Rightarrow> state" where
  "glLinkProgram program s = LOG ''glLinkProgram(%u)'' [U program] s"

definition glUseProgram :: "c_uint \<Rightarrow> state \<Rightarrow> state" where
  "glUseProgram program s = LOG ''glUseProgram(%u)'' [U program] s"

definition glDeleteVertexArrays :: "c_int \<Rightarrow> ptr \<Rightarrow> state \<Rightarrow> state" where
  "glDeleteVertexArrays n arrays s = LOG ''glDeleteVertexArrays(n=%d)'' [I n] s"

definition glBindVertexArray :: "c_uint \<Rightarrow> state \<Rightarrow> state" where
  "glBindVertexArray array s = LOG ''glBindVertexArray(%u)'' [U array] s"

definition glEnable :: "c_int \<Rightarrow> state \<Rightarrow> state" where
  "glEnable cap s = LOG ''glEnable(0x%x)'' [I cap] s"

definition glDisable :: "c_int \<Rightarrow> state \<Rightarrow> state" where
  "glDisable cap s = LOG ''glDisable(0x%x)'' [I cap] s"

definition glBlendFunc :: "c_int \<Rightarrow> c_int \<Rightarrow> state \<Rightarrow> state" where
  "glBlendFunc sfactor dfactor s = LOG ''glBlendFunc(0x%x, 0x%x)'' [I sfactor, I dfactor] s"

definition glViewport :: "c_int \<Rightarrow> c_int \<Rightarrow> c_int \<Rightarrow> c_int \<Rightarrow> state \<Rightarrow> state" where
  "glViewport x y width height s =
     LOG ''glViewport(%d, %d, %d, %d)'' [I x, I y, I width, I height] s"

definition glScissor :: "c_int \<Rightarrow> c_int \<Rightarrow> c_int \<Rightarrow> c_int \<Rightarrow> state \<Rightarrow> state" where
  "glScissor x y width height s =
     LOG ''glScissor(%d, %d, %d, %d)'' [I x, I y, I width, I height] s"

definition glDeleteFramebuffers :: "c_int \<Rightarrow> ptr \<Rightarrow> state \<Rightarrow> state" where
  "glDeleteFramebuffers n framebuffers s = LOG ''glDeleteFramebuffers(n=%d)'' [I n] s"

definition glBindFramebuffer :: "c_int \<Rightarrow> c_uint \<Rightarrow> state \<Rightarrow> state" where
  "glBindFramebuffer target framebuffer s =
     LOG ''glBindFramebuffer(target=0x%x, fb=%u)'' [I target, U framebuffer] s"

subsection \<open>Queries\<close>

definition glCheckFramebufferStatus :: "c_int \<Rightarrow> state \<Rightarrow> c_int \<times> state" where
  "glCheckFramebufferStatus target s =
     (0x8CD5, LOG ''glCheckFramebufferStatus -> GL_FRAMEBUFFER_COMPLETE'' [] s)"

text \<open>\<open>if (params) *params = 1;\<close>\<close>

definition glGetIntegerv :: "c_int \<Rightarrow> ptr \<Rightarrow> state \<Rightarrow> fault + state" where
  "glGetIntegerv pname params s =
     (let s1 = LOG ''glGetIntegerv(pname=0x%x)'' [I pname] s
      in if params \<noteq> NULL then store params 0 1 s1 else Inr s1)"

text \<open>
  The returned C string is modelled by its characters. The four \<open>static const char*\<close>
  locals are \<open>vendor\<close>, \<open>renderer\<close>, \<open>version\<close> and \<open>extensions\<close>.
\<close>

definition glGetString :: "c_int \<Rightarrow> state \<Rightarrow> string \<times> state" where
  "glGetString name s =
     (let s1 = LOG ''glGetString(name=0x%x)'' [I name] s;
          vendor = ''GL Nullify'';
          renderer = ''Null Renderer'';
          version = ''4.5'';
          extensions = ''''
      in if name = 0x1F00 then (vendor, s1)
         else if name = 0x1F01 then (renderer, s1)
         else if name = 0x1F02 then (version, s1)
         else if name = 0x1F03 then (extensions, s1)
         else ('''', s1))"

text \<open>\<open>glGetError\<close> neither logs nor reads any state.\<close>

definition glGetError :: "state \<Rightarrow> c_int \<times> state" where
  "glGetError s = (0, s)"

definition glGetShaderiv :: "c_uint \<Rightarrow> c_int \<Rightarrow> ptr \<Rightarrow> state \<Rightarrow> fault + state" where
  "glGetShaderiv shader pname params s =
     (let s1 = LOG ''glGetShaderiv(shader=%u, pname=0x%x)'' [U shader, I pname] s
      in if params \<noteq> NULL then
           (if pname = 0x8B81 then store params 0 1 s1 else store params 0 0 s1)
         else Inr s1)"

definition glGetProgramiv :: "c_uint \<Rightarrow> c_int \<Rightarrow> ptr \<Rightarrow> state \<Rightarrow> fault + state" where
  "glGetProgramiv program pname params s =
     (let s1 = LOG ''glGetProgramiv(prog=%u, pname=0x%x)'' [U program, I pname] s
      in if params \<noteq> NULL then
           (if pname = 0x8B82 then store params 0 1 s1 else store params 0 0 s1)
         else Inr s1)"

section \<open>Call histories\<close>

text \<open>
  One constructor per exported symbol, carrying the arguments of one call, grouped as
  the sections of the source file are.
\<close>

datatype draw_call =
    DrawArrays c_int c_int c_int
  | DrawElements c_int c_int c_int ptr
  | DrawArraysInstanced c_int c_int c_int c_int
  | DrawElementsInstanced c_int c_int c_int ptr c_int

datatype frame_call =
    XSwapBuffers ptr ptr
  | Clear c_uint
  | ClearColor c_float c_float c_float c_float

datatype texture_call =
    GenTextures c_int ptr
  | DeleteTextures c_int ptr
  | BindTexture c_int c_uint
  | TexImage2D c_int c_int c_int c_int c_int c_int c_int c_int ptr
  | TexSubImage2D c_int c_int c_int c_int c_int c_int c_int c_int ptr

datatype buffer_call =
    GenBuffers c_int ptr
  | DeleteBuffers c_int ptr
  | BindBuffer c_int c_uint
  | BufferData c_int c_long ptr c_int
  | BufferSubData c_int c_long c_long ptr

datatype shader_call =
    CreateShader c_int
  | DeleteShader c_uint
  | ShaderSource c_uint c_int ptr ptr
  | CompileShader c_uint
  | CreateProgram
  | DeleteProgram c_uint
  | AttachShader c_uint c_uint
  | LinkProgram c_uint
  | UseProgram c_uint

datatype vao_call =
    GenVertexArrays c_int ptr
  | DeleteVertexArrays c_int ptr
  | BindVertexArray c_uint

datatype state_call =
    Enable c_int
  | Disable c_int
  | BlendFunc c_int c_int
  | Viewport c_int c_int c_int c_int
  | Scissor c_int c_int c_int c_int

datatype framebuffer_call =
    GenFramebuffers c_int ptr
  | DeleteFramebuffers c_int ptr
  | BindFramebuffer c_int c_uint
  | CheckFramebufferStatus c_int

datatype query_call =
    GetIntegerv c_int ptr
  | GetString c_int
  | GetError
  | GetShaderiv c_uint c_int ptr
  | GetProgramiv c_uint c_int ptr

datatype call =
    Draw draw_call
  | Frame frame_call
  | Texture texture_call
  | Buffer buffer_call
  | Shader shader_call
  | VAO vao_call
  | State state_call
  | Framebuffer framebuffer_call
  | Query query_call

text \<open>What a call hands back to the caller through its return value.\<close>

datatype retval = RVoid | RInt c_int | RUInt c_uint | RString string

definition void :: "state \<Rightarrow> fault + retval \<times> state" where
  "void s = Inr (RVoid, s)"

definition void_or_fault :: "fault + state \<Rightarrow> fault + retval \<times> state" where
  "void_or_fault r = (case r of Inl f \<Rightarrow> Inl f | Inr s \<Rightarrow> Inr (RVoid, s))"

text \<open>Dispatch of one call to the function the dynamic linker resolves it to.\<close>

fun exec_draw :: "draw_call \<Rightarrow> state \<Rightarrow> fault + retval \<times> state" where
  "exec_draw (DrawArrays mode first count) s = void (glDrawArrays mode first count s)"
| "exec_draw (DrawElements mode count type indices) s =
     void (glDrawElements mode count type indices s)"
| "exec_draw (DrawArraysInstanced mode first count ic) s =
     void (glDrawArraysInstanced mode first count ic s)"
| "exec_draw (DrawElementsInstanced mode count type indices ic) s =
     void (glDrawElementsInstanced mode count type indices ic s)"

fun exec_frame :: "frame_call \<Rightarrow> state \<Rightarrow> fault + retval \<times> state" where
  "exec_frame (XSwapBuffers dpy drawable) s = void (glXSwapBuffers dpy drawable s)"
| "exec_frame (Clear m) s = void (glClear m s)"
| "exec_frame (ClearColor r g b a) s = void (glClearColor r g b a s)"

fun exec_texture :: "texture_call \<Rightarrow> state \<Rightarrow> fault + retval \<times> state" where
  "exec_texture (GenTextures n p) s = void_or_fault (glGenTextures n p s)"
| "exec_texture (DeleteTextures n p) s = void (glDeleteTextures n p s)"
| "exec_texture (BindTexture target texture) s = void (glBindTexture target texture s)"
| "exec_texture (TexImage2D target level ifmt w h border fmt type data) s =
     void (glTexImage2D target level ifmt w h border fmt type data s)"
| "exec_texture (TexSubImage2D target level xo yo w h fmt type data) s =
     void (glTexSubImage2D target level xo yo w h fmt type data s)"

fun exec_buffer :: "buffer_call \<Rightarrow> state \<Rightarrow> fault + retval \<times> state" where
  "exec_buffer (GenBuffers n p) s = void_or_fault (glGenBuffers n p s)"
| "exec_buffer (DeleteBuffers n p) s = void (glDeleteBuffers n p s)"
| "exec_buffer (BindBuffer target buffer) s = void (glBindBuffer target buffer s)"
| "exec_buffer (BufferData target sz data usage) s = void (glBufferData target sz data usage s)"
| "exec_buffer (BufferSubData target off sz data) s =
     void (glBufferSubData target off sz data s)"

fun exec_shader :: "shader_call \<Rightarrow> state \<Rightarrow> fault + retval \<times> state" where
  "exec_shader (CreateShader type) s =
     (case glCreateShader type s of (r, s') \<Rightarrow> Inr (RUInt r, s'))"
| "exec_shader (DeleteShader shader) s = void (glDeleteShader shader s)"
| "exec_shader (ShaderSource shader count str len) s =
     void (glShaderSource shader count str len s)"
| "exec_shader (CompileShader shader) s = void (glCompileShader shader s)"
| "exec_shader CreateProgram s = (case glCreateProgram s of (r, s') \<Rightarrow> Inr (RUInt r, s'))"
| "exec_shader (DeleteProgram program) s = void (glDeleteProgram program s)"
| "exec_shader (AttachShader program shader) s = void (glAttachShader program shader s)"
| "exec_shader (LinkProgram program) s = void (glLinkProgram program s)"
| "exec_shader (UseProgram program) s = void (glUseProgram program s)"

fun exec_vao :: "vao_call \<Rightarrow> state \<Rightarrow> fault + retval \<times> state" where
  "exec_vao (GenVertexArrays n p) s = void_or_fault (glGenVertexArrays n p s)"
| "exec_vao (DeleteVertexArrays n p) s = void (glDeleteVertexArrays n p s)"
| "exec_vao (BindVertexArray array) s = void (glBindVertexArray array s)"

fun exec_state :: "state_call \<Rightarrow> state \<Rightarrow> fault + retval \<times> state" where
  "exec_state (Enable cap) s = void (glEnable cap s)"
| "exec_state (Disable cap) s = void (glDisable cap s)"
| "exec_state (BlendFunc sf df) s = void (glBlendFunc sf df s)"
| "exec_state (Viewport x y w h) s = void (glViewport x y w h s)"
| "exec_state (Scissor x y w h) s = void (glScissor x y w h s)"

fun exec_framebuffer :: "framebuffer_call \<Rightarrow> state \<Rightarrow> fault + retval \<times> state" where
  "exec_framebuffer (GenFramebuffers n p) s = void_or_fault (glGenFramebuffers n p s)"
| "exec_framebuffer (DeleteFramebuffers n p) s = void (glDeleteFramebuffers n p s)"
| "exec_framebuffer (BindFramebuffer target fb) s = void (glBindFramebuffer target fb s)"
| "exec_framebuffer (CheckFramebufferStatus target) s =
     (case glCheckFramebufferStatus target s of (r, s') \<Rightarrow> Inr (RInt r, s'))"

fun exec_query :: "query_call \<Rightarrow> state \<Rightarrow> fault + retval \<times> state" where
  "exec_query (GetIntegerv pname params) s = void_or_fault (glGetIntegerv pname params s)"
| "exec_query (GetString name) s =
     (case glGetString name s of (r, s') \<Rightarrow> Inr (RString r, s'))"
| "exec_query GetError s = (case glGetError s of (r, s') \<Rightarrow> Inr (RInt r, s'))"
| "exec_query (GetShaderiv shader pname params) s =
     void_or_fault (glGetShaderiv shader pname params s)"
| "exec_query (GetProgramiv program pname params) s =
     void_or_fault (glGetProgramiv program pname params s)"

fun exec :: "call \<Rightarrow> state \<Rightarrow> fault + retval \<times> state" where
  "exec (Draw c) s = exec_draw c s"
| "exec (Frame c) s = exec_frame c s"
| "exec (Texture c) s = exec_texture c s"
| "exec (Buffer c) s = exec_buffer c s"
| "exec (Shader c) s = exec_shader c s"
| "exec (VAO c) s = exec_vao c s"
| "exec (State c) s = exec_state c s"
| "exec (Framebuffer c) s = exec_framebuffer c s"
| "exec (Query c) s = exec_query c s"

text \<open>
  A call history run from a state; a fault ends the process, so the run stops there.
\<close>

fun run :: "call list \<Rightarrow> state \<Rightarrow> fault + state" where
  "run [] s = Inr s"
| "run (c # cs) s = (case exec c s of Inl f \<Rightarrow> Inl f | Inr (r, s') \<Rightarrow> run cs s')"

section \<open>Observations on runs\<close>

text \<open>The four generate functions, which differ only in the name they log.\<close>

definition generate_functions :: "(c_int \<Rightarrow> ptr \<Rightarrow> state \<Rightarrow> fault + state) list" where
  "generate_functions = [glGenTextures, glGenBuffers, glGenVertexArrays, glGenFramebuffers]"

text \<open>
  The identifiers a generate call handed over: the first \<open>n\<close> cells of its output array,
  read when the call has returned.
\<close>

definition out_cells :: "c_int \<Rightarrow> ptr \<Rightarrow> state \<Rightarrow> c_uint list" where
  "out_cells n p s =
     (case p of NULL \<Rightarrow> [] | Ptr a \<Rightarrow> map (\<lambda>i. heap s (a + i)) [0..<nat (sint n)])"

text \<open>
  The identifiers a completed call gave to the caller, through the output array or as
  its return value; \<open>s\<close> is the state the call left.
\<close>

definition issued :: "call \<Rightarrow> retval \<Rightarrow> state \<Rightarrow> c_uint list" where
  "issued c r s =
     (case c of
        Texture (GenTextures n p) \<Rightarrow> out_cells n p s
      | Buffer (GenBuffers n p) \<Rightarrow> out_cells n p s
      | VAO (GenVertexArrays n p) \<Rightarrow> out_cells n p s
      | Framebuffer (GenFramebuffers n p) \<Rightarrow> out_cells n p s
      | Shader (CreateShader t) \<Rightarrow> (case r of RUInt v \<Rightarrow> [v] | _ \<Rightarrow> [])
      | Shader CreateProgram \<Rightarrow> (case r of RUInt v \<Rightarrow> [v] | _ \<Rightarrow> [])
      | _ \<Rightarrow> [])"

text \<open>
  Every identifier handed out during a run, in order. A faulting call ends the process
  and hands out nothing.
\<close>

fun emitted :: "call list \<Rightarrow> state \<Rightarrow> c_uint list" where
  "emitted [] s = []"
| "emitted (c # cs) s =
     (case exec c s of Inl f \<Rightarrow> [] | Inr (r, s') \<Rightarrow> issued c r s' @ emitted cs s')"

text \<open>How many identifiers a call asks for.\<close>

definition alloc_count :: "call \<Rightarrow> nat" where
  "alloc_count c =
     (case c of
        Texture (GenTextures n p) \<Rightarrow> nat (sint n)
      | Buffer (GenBuffers n p) \<Rightarrow> nat (sint n)
      | VAO (GenVertexArrays n p) \<Rightarrow> nat (sint n)
      | Framebuffer (GenFramebuffers n p) \<Rightarrow> nat (sint n)
      | Shader (CreateShader t) \<Rightarrow> 1
      | Shader CreateProgram \<Rightarrow> 1
      | _ \<Rightarrow> 0)"

text \<open>
  Memory \<open>h\<close> after the cells \<open>a, \<dots>, a + m - 1\<close> received \<open>k, k + 1, \<dots>\<close> in turn.
\<close>

definition filled :: "nat \<Rightarrow> nat \<Rightarrow> c_uint \<Rightarrow> (nat \<Rightarrow> 32 word) \<Rightarrow> nat \<Rightarrow> 32 word" where
  "filled a m k h = (\<lambda>b. if a \<le> b \<and> b < a + m then k + of_nat (b - a) else h b)"

text \<open>The return values of the completed calls of a run, in order.\<close>

fun returns :: "call list \<Rightarrow> state \<Rightarrow> retval list" where
  "returns [] s = []"
| "returns (c # cs) s =
     (case exec c s of Inl f \<Rightarrow> [] | Inr (r, s') \<Rightarrow> r # returns cs s')"

text \<open>The six identifier-allocating entry points.\<close>

definition allocating :: "call \<Rightarrow> bool" where
  "allocating c =
     (case c of
        Texture (GenTextures n p) \<Rightarrow> True
      | Buffer (GenBuffers n p) \<Rightarrow> True
      | Shader (CreateShader t) \<Rightarrow> True
      | Shader CreateProgram \<Rightarrow> True
      | VAO (GenVertexArrays n p) \<Rightarrow> True
      | Framebuffer (GenFramebuffers n p) \<Rightarrow> True
      | _ \<Rightarrow> False)"

text \<open>The six delete entry points.\<close>

definition is_delete :: "call \<Rightarrow> bool" where
  "is_delete c =
     (case c of
        Texture (DeleteTextures n p) \<Rightarrow> True
      | Buffer (DeleteBuffers n p) \<Rightarrow> True
      | Shader (DeleteShader x) \<Rightarrow> True
      | Shader (DeleteProgram x) \<Rightarrow> True
      | VAO (DeleteVertexArrays n p) \<Rightarrow> True
      | Framebuffer (DeleteFramebuffers n p) \<Rightarrow> True
      | _ \<Rightarrow> False)"

text \<open>The output pointer of the three queries that answer through one.\<close>

definition query_out :: "call \<Rightarrow> ptr" where
  "query_out c =
     (case c of
        Query (GetIntegerv pname params) \<Rightarrow> params
      | Query (GetShaderiv shader pname params) \<Rightarrow> params
      | Query (GetProgramiv program pname params) \<Rightarrow> params
      | _ \<Rightarrow> NULL)"

section \<open>The generate loop in closed form\<close>

declare gen_loop.simps [simp del]

lemma sint_succ_below:
  fixes i n :: "32 word"
  assumes "i <s n"
  shows "sint (i + 1) = sint i + 1"
proof -
  have lt: "sint i < sint n" using assms by (simp add: word_sless_alt)
  have hi: "sint n < 2 ^ 31" using sint_lt [of n] by simp
  have lo: "- (2 ^ 31) \<le> sint i" using sint_ge [of i] by simp
  have "sint (i + 1) = signed_take_bit 31 (sint i + 1)"
    by (simp add: sint_word_ariths)
  also have "\<dots> = sint i + 1"
    using lt hi lo by (intro signed_take_bit_int_eq_self) auto
  finally show ?thesis .
qed

lemma gen_loop_exit: "\<not> i <s n \<Longrightarrow> gen_loop i n out s = Inr s"
  by (simp add: gen_loop.simps)

lemma gen_loop_NULL: "i <s n \<Longrightarrow> gen_loop i n NULL s = Inl Segfault"
  by (simp add: gen_loop.simps store_def)

lemma gen_loop_step:
  "i <s n \<Longrightarrow> gen_loop i n (Ptr a) s =
     gen_loop (i + 1) n (Ptr a)
       (s\<lparr>heap := (heap s)(nat (int a + sint i) := fake_id s), fake_id := fake_id s + 1\<rparr>)"
  by (subst gen_loop.simps) (simp add: store_def)

lemma filled_0: "filled a 0 k h = h"
  by (rule ext) (auto simp: filled_def)

lemma filled_Suc: "filled (Suc a) m (k + 1) (h(a := k)) = filled a (Suc m) k h"
  by (rule ext) (auto simp: filled_def Suc_diff_le)

lemma gen_loop_Ptr:
  assumes "0 \<le> sint i" "sint i \<le> sint n"
  shows "gen_loop i n (Ptr a) s =
           Inr (s\<lparr>heap := filled (a + nat (sint i)) (nat (sint n - sint i)) (fake_id s) (heap s),
                  fake_id := fake_id s + of_nat (nat (sint n - sint i))\<rparr>)"
  using assms
proof (induction "nat (sint n - sint i)" arbitrary: i s)
  case 0
  then have "\<not> i <s n" by (simp add: word_sless_alt)
  with 0 show ?case by (simp add: gen_loop_exit filled_0)
next
  case (Suc m)
  then have lt: "i <s n" by (simp add: word_sless_alt)
  have s1: "sint (i + 1) = sint i + 1" by (rule sint_succ_below [OF lt])
  let ?s = "s\<lparr>heap := (heap s)(nat (int a + sint i) := fake_id s), fake_id := fake_id s + 1\<rparr>"
  have m: "m = nat (sint n - sint (i + 1))" using Suc.hyps(2) s1 by simp
  have ih: "gen_loop (i + 1) n (Ptr a) ?s =
           Inr (?s\<lparr>heap := filled (a + nat (sint (i + 1))) (nat (sint n - sint (i + 1))) (fake_id ?s) (heap ?s),
                  fake_id := fake_id ?s + of_nat (nat (sint n - sint (i + 1)))\<rparr>)"
    using Suc.hyps(1) [OF m] Suc.prems s1 lt by (simp add: word_sless_alt)
  have a1: "a + nat (sint (i + 1)) = Suc (a + nat (sint i))" using s1 Suc.prems by simp
  have a2: "nat (int a + sint i) = a + nat (sint i)" using Suc.prems by simp
  have n1: "nat (sint n - sint i) = Suc (nat (sint n - sint (i + 1)))"
    using Suc.hyps(2) m by simp
  have "gen_loop i n (Ptr a) s = gen_loop (i + 1) n (Ptr a) ?s"
    by (rule gen_loop_step [OF lt])
  also note ih
  also have "Inr (?s\<lparr>heap := filled (a + nat (sint (i + 1))) (nat (sint n - sint (i + 1))) (fake_id ?s) (heap ?s),
                  fake_id := fake_id ?s + of_nat (nat (sint n - sint (i + 1)))\<rparr>) =
      Inr (s\<lparr>heap := filled (a + nat (sint i)) (nat (sint n - sint i)) (fake_id s) (heap s),
                  fake_id := fake_id s + of_nat (nat (sint n - sint i))\<rparr>)"
    unfolding a1 a2 n1 by (simp add: filled_Suc)
  finally show ?case .
qed

lemma gen_loop_from_0:
  assumes "0 \<le> sint n"
  shows "gen_loop 0 n (Ptr a) s =
           Inr (s\<lparr>heap := filled a (nat (sint n)) (fake_id s) (heap s),
                  fake_id := fake_id s + n\<rparr>)"
  using gen_loop_Ptr [of 0 n a s] assms by simp

lemma gen_loop_nonpos: "sint n \<le> 0 \<Longrightarrow> gen_loop 0 n p s = Inr s"
  by (rule gen_loop_exit) (simp add: word_sless_alt)

lemma gen_loop_NULL_pos: "0 < sint n \<Longrightarrow> gen_loop 0 n NULL s = Inl Segfault"
  by (rule gen_loop_NULL) (simp add: word_sless_alt)

lemma LOG_fields [simp]:
  "fake_id (LOG fmt args s) = fake_id s" "heap (LOG fmt args s) = heap s"
  by (simp_all add: LOG_def)

lemma map_filled: "map (\<lambda>i. filled a m k h (a + i)) [0..<m] = map (\<lambda>i. k + of_nat i) [0..<m]"
  by (simp add: filled_def)

text \<open>What the shared loop hands out from index 0, for either kind of pointer.\<close>

lemma gen_loop_issue:
  assumes "gen_loop 0 n p s = Inr s'"
  shows "fake_id s' = fake_id s + of_nat (nat (sint n)) \<and>
         out_cells n p s' = map (\<lambda>i. fake_id s + of_nat i) [0..<nat (sint n)]"
proof (cases "0 < sint n")
  case False
  then have "s' = s" using assms gen_loop_nonpos [of n p s] by simp
  with False show ?thesis by (simp add: out_cells_def split: ptr.split)
next
  case True
  then obtain a where p: "p = Ptr a"
    using assms gen_loop_NULL_pos [of n s] by (cases p) auto
  have "s' = s\<lparr>heap := filled a (nat (sint n)) (fake_id s) (heap s), fake_id := fake_id s + n\<rparr>"
    using assms True gen_loop_from_0 [of n a s] unfolding p by simp
  with True show ?thesis by (simp add: p out_cells_def map_filled)
qed

lemma void_or_fault_Inr: "void_or_fault x = Inr (r, s') \<longleftrightarrow> r = RVoid \<and> x = Inr s'"
  by (auto simp: void_or_fault_def split: sum.splits)

lemma void_Inr: "void x = Inr (r, s') \<longleftrightarrow> r = RVoid \<and> x = s'"
  by (auto simp: void_def)

lemmas noop_defs =
  glDrawArrays_def glDrawElements_def glDrawArraysInstanced_def glDrawElementsInstanced_def
  glXSwapBuffers_def glClear_def glClearColor_def glDeleteTextures_def glBindTexture_def
  glTexImage2D_def glTexSubImage2D_def glDeleteBuffers_def glBindBuffer_def glBufferData_def
  glBufferSubData_def glDeleteShader_def glShaderSource_def glCompileShader_def
  glDeleteProgram_def glAttachShader_def glLinkProgram_def glUseProgram_def
  glDeleteVertexArrays_def glBindVertexArray_def glEnable_def glDisable_def glBlendFunc_def
  glViewport_def glScissor_def glDeleteFramebuffers_def glBindFramebuffer_def

lemma store_fake_id: "store p i v s = Inr s' \<Longrightarrow> fake_id s' = fake_id s"
  by (auto simp: store_def split: ptr.splits)

lemma query_fake_id:
  "glGetIntegerv pn p s = Inr s' \<Longrightarrow> fake_id s' = fake_id s"
  "glGetShaderiv sh pn p s = Inr s' \<Longrightarrow> fake_id s' = fake_id s"
  "glGetProgramiv pr pn p s = Inr s' \<Longrightarrow> fake_id s' = fake_id s"
  by (auto simp: glGetIntegerv_def glGetShaderiv_def glGetProgramiv_def Let_def
      dest!: store_fake_id split: if_splits)

lemma glGetString_state:
  "glGetString name s = (r, s') \<Longrightarrow> fake_id s' = fake_id s \<and> heap s' = heap s"
  by (auto simp: glGetString_def Let_def split: if_splits)

lemma exec_issue:
  assumes "exec c s = Inr (r, s')"
  shows "fake_id s' = fake_id s + of_nat (alloc_count c) \<and>
         issued c r s' = map (\<lambda>i. fake_id s + of_nat i) [0..<alloc_count c]"
proof (cases c)
  case (Draw x)
  with assms show ?thesis
    by (cases x) (auto simp: void_Inr noop_defs alloc_count_def issued_def)
next
  case (Frame x)
  with assms show ?thesis
    by (cases x) (auto simp: void_Inr noop_defs alloc_count_def issued_def)
next
  case (Texture x)
  with assms show ?thesis
    by (cases x)
      (auto simp: void_Inr void_or_fault_Inr noop_defs alloc_count_def issued_def
        glGenTextures_def dest!: gen_loop_issue)
next
  case (Buffer x)
  with assms show ?thesis
    by (cases x)
      (auto simp: void_Inr void_or_fault_Inr noop_defs alloc_count_def issued_def
        glGenBuffers_def dest!: gen_loop_issue)
next
  case (Shader x)
  with assms show ?thesis
    by (cases x)
      (auto simp: void_Inr noop_defs alloc_count_def issued_def glCreateShader_def
        glCreateProgram_def Let_def)
next
  case (VAO x)
  with assms show ?thesis
    by (cases x)
      (auto simp: void_Inr void_or_fault_Inr noop_defs alloc_count_def issued_def
        glGenVertexArrays_def dest!: gen_loop_issue)
next
  case (State x)
  with assms show ?thesis
    by (cases x) (auto simp: void_Inr noop_defs alloc_count_def issued_def)
next
  case (Framebuffer x)
  with assms show ?thesis
    by (cases x)
      (auto simp: void_Inr void_or_fault_Inr noop_defs alloc_count_def issued_def
        glGenFramebuffers_def glCheckFramebufferStatus_def dest!: gen_loop_issue)
next
  case (Query x)
  with assms show ?thesis
    by (cases x)
      (auto simp: void_or_fault_Inr alloc_count_def issued_def
        glGetError_def dest: query_fake_id glGetString_state split: prod.splits)
qed

lemma map_upt_append:
  "map f [0..<m] @ map (\<lambda>i. f (m + i)) [0..<l] = map f [0..<m + l]"
  by (induction l) simp_all

lemma emitted_eq:
  "emitted cs s = map (\<lambda>i. fake_id s + of_nat i) [0..<length (emitted cs s)]"
proof (induction cs arbitrary: s)
  case Nil
  show ?case by simp
next
  case (Cons c cs)
  show ?case
  proof (cases "exec c s")
    case (Inl f)
    then show ?thesis by simp
  next
    case (Inr x)
    obtain r s' where x: "x = (r, s')" by (cases x)
    note e = exec_issue [OF Inr [unfolded x]]
    let ?m = "alloc_count c" and ?l = "length (emitted cs s')"
    have "emitted (c # cs) s = issued c r s' @ emitted cs s'"
      using Inr x by simp
    also have "\<dots> = map (\<lambda>i. fake_id s + of_nat i) [0..<?m] @
                     map (\<lambda>i. fake_id s + of_nat (?m + i)) [0..<?l]"
      using e Cons.IH [of s'] by (simp add: add.assoc)
    also have "\<dots> = map (\<lambda>i. fake_id s + of_nat i) [0..<?m + ?l]"
      by (rule map_upt_append)
    finally have eq: "emitted (c # cs) s = map (\<lambda>i. fake_id s + of_nat i) [0..<?m + ?l]" .
    then have "length (emitted (c # cs) s) = ?m + ?l" by simp
    with eq show ?thesis by simp
  qed
qed

lemma fresh_ids:
  assumes "m < 2 ^ 32"
  shows "distinct (map (\<lambda>i. (1 :: 32 word) + of_nat i) [0..<m]) \<and>
         0 \<notin> set (map (\<lambda>i. (1 :: 32 word) + of_nat i) [0..<m])"
proof
  have "inj_on (\<lambda>i. (1 :: 32 word) + of_nat i) {0..<m}"
  proof (rule inj_onI)
    fix i j assume "i \<in> {0..<m}" "j \<in> {0..<m}"
      and "(1 :: 32 word) + of_nat i = 1 + of_nat j"
    then have "i < 2 ^ 32" "j < 2 ^ 32" "(of_nat i :: 32 word) = of_nat j"
      using assms by auto
    then show "i = j"
      by (simp add: word_of_nat_eq_iff take_bit_nat_eq_self)
  qed
  then show "distinct (map (\<lambda>i. (1 :: 32 word) + of_nat i) [0..<m])"
    by (simp add: distinct_map)
next
  show "0 \<notin> set (map (\<lambda>i. (1 :: 32 word) + of_nat i) [0..<m])"
  proof
    assume "0 \<in> set (map (\<lambda>i. (1 :: 32 word) + of_nat i) [0..<m])"
    then obtain i where i: "i < m" "(1 :: 32 word) + of_nat i = 0" by auto
    then have "(of_nat (Suc i) :: 32 word) = 0" by simp
    moreover have "(of_nat (Suc i) :: 32 word) \<noteq> 0"
      using i(1) assms by (intro of_nat_neq_0) auto
    ultimately show False by simp
  qed
qed

lemma exec_CreateProgram:
  "glCreateProgram s =
     (fake_id s, (LOG ''glCreateProgram() -> %u'' [U (fake_id s)] s)\<lparr>fake_id := fake_id s + 1\<rparr>)"
  by (simp add: glCreateProgram_def Let_def)

lemma emitted_replicate_create:
  "emitted (replicate n (Shader CreateProgram)) s = map (\<lambda>i. fake_id s + of_nat i) [0..<n]"
proof (induction n arbitrary: s)
  case 0
  show ?case by simp
next
  case (Suc n)
  have "emitted (replicate (Suc n) (Shader CreateProgram)) s =
        map (\<lambda>i. fake_id s + of_nat i) [0..<1] @ map (\<lambda>i. fake_id s + of_nat (1 + i)) [0..<n]"
    by (simp add: exec_CreateProgram issued_def Suc.IH add.assoc)
  also have "\<dots> = map (\<lambda>i. fake_id s + of_nat i) [0..<1 + n]"
    by (rule map_upt_append)
  finally show ?case by simp
qed

lemma run_replicate_create:
  "\<exists>s'. run (replicate n (Shader CreateProgram)) s = Inr s' \<and>
        fake_id s' = fake_id s + of_nat n \<and> heap s' = heap s"
proof (induction n arbitrary: s)
  case 0
  show ?case by simp
next
  case (Suc n)
  let ?s = "(LOG ''glCreateProgram() -> %u'' [U (fake_id s)] s)\<lparr>fake_id := fake_id s + 1\<rparr>"
  from Suc.IH [of ?s] show ?case
    by (auto simp: exec_CreateProgram add.assoc)
qed

lemma run_fake_id:
  "run cs s = Inr s' \<Longrightarrow> fake_id s' = fake_id s + of_nat (length (emitted cs s))"
proof (induction cs arbitrary: s)
  case Nil
  then show ?case by simp
next
  case (Cons c cs)
  then obtain r s1 where e: "exec c s = Inr (r, s1)" and r: "run cs s1 = Inr s'"
    by (auto split: sum.splits)
  from exec_issue [OF e] Cons.IH [OF r] e show ?case
    by (simp add: add.assoc)
qed

lemma emitted_append:
  "run xs s = Inr s' \<Longrightarrow> emitted (xs @ ys) s = emitted xs s @ emitted ys s'"
  by (induction xs arbitrary: s) (auto split: sum.splits)

lemma generate_functions_loop:
  assumes "g \<in> set generate_functions"
  shows "\<exists>fmt. g n p s = gen_loop 0 n p (LOG fmt [I n] s)"
  using assms
  by (auto simp: generate_functions_def glGenTextures_def glGenBuffers_def
      glGenVertexArrays_def glGenFramebuffers_def)

lemma later_id_fresh:
  assumes "l + i < 2 ^ 32"
  shows "(1 :: 32 word) + of_nat (l + i) \<notin> set (map (\<lambda>j. (1 :: 32 word) + of_nat j) [0..<l])"
proof
  assume "(1 :: 32 word) + of_nat (l + i) \<in> set (map (\<lambda>j. (1 :: 32 word) + of_nat j) [0..<l])"
  then obtain j where j: "j < l" "(of_nat (l + i) :: 32 word) = of_nat j" by auto
  then have jb: "j < 2 ^ 32" using assms by simp
  have "take_bit 32 (l + i) = take_bit 32 j"
    using j(2) unfolding word_of_nat_eq_iff by simp
  then have "l + i = j" using assms jb by (simp add: take_bit_nat_eq_self)
  with j(1) show False by simp
qed

section \<open>Identifier allocation\<close>

text \<open>
  Claim C1, as the code has it. The counter is a 32-bit \<open>unsigned int\<close> that starts at 1
  and is never checked for overflow. For every call history run from library load, over
  any caller memory: as long as fewer than \<open>2 ^ 32\<close> identifiers have been handed out
  (by the four generate functions, \<open>glCreateShader\<close> and \<open>glCreateProgram\<close>, in any mix),
  they are pairwise distinct and none of them is 0; in particular no create call has
  returned 0.
\<close>

theorem identifiers_fresh_until_wrap:
  assumes "length (emitted cs (init_state h)) < 2 ^ 32"
  shows "distinct (emitted cs (init_state h)) \<and> 0 \<notin> set (emitted cs (init_state h))"
proof -
  have "emitted cs (init_state h) =
        map (\<lambda>i. (1 :: 32 word) + of_nat i) [0..<length (emitted cs (init_state h))]"
    using emitted_eq [of cs "init_state h"] by (simp add: init_state_def)
  with fresh_ids [OF assms] show ?thesis by metis
qed

text \<open>
  The theorem at a short history: three textures, a shader, a delete, a program and two
  buffers receive the identifiers 1 to 7.
\<close>

theorem identifiers_fresh_until_wrap_witness:
  "length (emitted [Texture (GenTextures 3 (Ptr 0)), Shader (CreateShader 0x8B31),
                    Texture (DeleteTextures 3 (Ptr 0)), Shader CreateProgram,
                    Buffer (GenBuffers 2 (Ptr 1))] (init_state zero_heap)) < 2 ^ 32 \<and>
   distinct (emitted [Texture (GenTextures 3 (Ptr 0)), Shader (CreateShader 0x8B31),
                    Texture (DeleteTextures 3 (Ptr 0)), Shader CreateProgram,
                    Buffer (GenBuffers 2 (Ptr 1))] (init_state zero_heap)) \<and>
   0 \<notin> set (emitted [Texture (GenTextures 3 (Ptr 0)), Shader (CreateShader 0x8B31),
                    Texture (DeleteTextures 3 (Ptr 0)), Shader CreateProgram,
                    Buffer (GenBuffers 2 (Ptr 1))] (init_state zero_heap))"
proof -
  let ?cs = "[Texture (GenTextures 3 (Ptr 0)), Shader (CreateShader 0x8B31),
              Texture (DeleteTextures 3 (Ptr 0)), Shader CreateProgram,
              Buffer (GenBuffers 2 (Ptr 1))]"
  have e: "emitted ?cs (init_state zero_heap) = [1, 2, 3, 4, 5, 6, 7]"
    by (simp add: init_state_def zero_heap_def glGenTextures_def glGenBuffers_def
        glCreateShader_def glCreateProgram_def glDeleteTextures_def LOG_def Let_def
        void_def void_or_fault_def gen_loop.simps store_def issued_def out_cells_def
        word_sless_alt upt_rec)
  then have h: "length (emitted ?cs (init_state zero_heap)) < 2 ^ 32" by simp
  from h identifiers_fresh_until_wrap [OF h] show ?thesis by simp
qed

text \<open>
  Claim C1 as stated fails once the counter wraps: of \<open>2 ^ 32 + 1\<close> successive
  \<open>glCreateProgram\<close> calls, call number \<open>2 ^ 32\<close> returns 0 and the last one returns 1,
  as the first did.
\<close>

theorem identifiers_repeat_after_wrap:
  "0 \<in> set (emitted (replicate 4294967297 (Shader CreateProgram)) (init_state zero_heap)) \<and>
   \<not> distinct (emitted (replicate 4294967297 (Shader CreateProgram)) (init_state zero_heap))"
proof
  let ?xs = "emitted (replicate 4294967297 (Shader CreateProgram)) (init_state zero_heap)"
  have xs: "?xs = map (\<lambda>i. (1 :: 32 word) + of_nat i) [0..<4294967297]"
    by (simp add: emitted_replicate_create init_state_def)
  have len: "length ?xs = 4294967297" by (simp add: xs)
  have a: "?xs ! 0 = 1" unfolding xs by (subst nth_map) simp_all
  have b: "?xs ! 4294967295 = 0" unfolding xs by (subst nth_map) simp_all
  have c: "?xs ! 4294967296 = 1" unfolding xs by (subst nth_map) simp_all
  have "?xs ! 4294967295 \<in> set ?xs" by (rule nth_mem) (simp add: len)
  with b show "0 \<in> set ?xs" by simp
  have "?xs ! 0 = ?xs ! 4294967296" using a c by simp
  moreover have "(0::nat) < length ?xs" "(4294967296::nat) < length ?xs" by (simp_all add: len)
  ultimately show "\<not> distinct ?xs"
    using nth_eq_iff_index_eq [of ?xs 0 4294967296] by auto
qed

text \<open>
  Claim C2, as the code has it. In any state \<open>s\<close> a call history can leave, a generate
  function called with a count \<open>n \<ge> 0\<close> and an output array returns, having written
  \<open>k, k + 1, \<dots>, k + n - 1\<close> (32-bit arithmetic, \<open>k\<close> the counter's value) into the first
  \<open>n\<close> cells of the array and nothing elsewhere, and leaves the counter at \<open>k + n\<close>. Each
  identifier written differs from every identifier handed out before in the run, provided
  the run, this call included, has handed out at most \<open>2 ^ 32\<close> identifiers. With the
  count 0 the same holds for the null pointer: the call returns, nothing is written and
  the counter stays at \<open>k\<close>.
\<close>

theorem generate_writes_consecutive:
  assumes "g \<in> set generate_functions" and "0 \<le> sint n"
    and "run cs (init_state h) = Inr s"
  shows "(\<exists>s'. g n (Ptr a) s = Inr s' \<and>
           (\<forall>i < nat (sint n). heap s' (a + i) = fake_id s + of_nat i) \<and>
           (\<forall>b. b < a \<or> a + nat (sint n) \<le> b \<longrightarrow> heap s' b = heap s b) \<and>
           fake_id s' = fake_id s + n \<and>
           (length (emitted cs (init_state h)) + nat (sint n) \<le> 2 ^ 32 \<longrightarrow>
              (\<forall>i < nat (sint n). heap s' (a + i) \<notin> set (emitted cs (init_state h))))) \<and>
         (\<exists>s'. g 0 NULL s = Inr s' \<and> heap s' = heap s \<and> fake_id s' = fake_id s)"
proof
  obtain fmt where g: "g n (Ptr a) s = gen_loop 0 n (Ptr a) (LOG fmt [I n] s)"
    using generate_functions_loop [OF assms(1)] by blast
  let ?s1 = "LOG fmt [I n] s"
  let ?s' = "?s1\<lparr>heap := filled a (nat (sint n)) (fake_id ?s1) (heap ?s1),
                 fake_id := fake_id ?s1 + n\<rparr>"
  let ?prev = "emitted cs (init_state h)"
  have res: "g n (Ptr a) s = Inr ?s'"
    unfolding g by (rule gen_loop_from_0 [OF assms(2)])
  have k: "fake_id s = 1 + of_nat (length ?prev)"
    using run_fake_id [OF assms(3)] by (simp add: init_state_def)
  have prev: "?prev = map (\<lambda>j. (1 :: 32 word) + of_nat j) [0..<length ?prev]"
    using emitted_eq [of cs "init_state h"] by (simp add: init_state_def)
  have fresh: "heap ?s' (a + i) \<notin> set ?prev"
    if "length ?prev + nat (sint n) \<le> 2 ^ 32" "i < nat (sint n)" for i
  proof -
    have "length ?prev + i < 2 ^ 32" using that by linarith
    from later_id_fresh [OF this] prev
    have "(1 :: 32 word) + of_nat (length ?prev + i) \<notin> set ?prev" by metis
    moreover have "heap ?s' (a + i) = 1 + of_nat (length ?prev + i)"
      using that(2) k by (simp add: filled_def add.assoc)
    ultimately show ?thesis by simp
  qed
  have "(\<forall>i < nat (sint n). heap ?s' (a + i) = fake_id s + of_nat i)"
    by (simp add: filled_def)
  moreover have "(\<forall>b. b < a \<or> a + nat (sint n) \<le> b \<longrightarrow> heap ?s' b = heap s b)"
    by (auto simp: filled_def)
  moreover have "fake_id ?s' = fake_id s + n" by simp
  ultimately show "\<exists>s'. g n (Ptr a) s = Inr s' \<and>
           (\<forall>i < nat (sint n). heap s' (a + i) = fake_id s + of_nat i) \<and>
           (\<forall>b. b < a \<or> a + nat (sint n) \<le> b \<longrightarrow> heap s' b = heap s b) \<and>
           fake_id s' = fake_id s + n \<and>
           (length (emitted cs (init_state h)) + nat (sint n) \<le> 2 ^ 32 \<longrightarrow>
              (\<forall>i < nat (sint n). heap s' (a + i) \<notin> set (emitted cs (init_state h))))"
    using res fresh by blast
next
  obtain fmt where "g 0 NULL s = gen_loop 0 0 NULL (LOG fmt [I 0] s)"
    using generate_functions_loop [OF assms(1)] by blast
  then show "\<exists>s'. g 0 NULL s = Inr s' \<and> heap s' = heap s \<and> fake_id s' = fake_id s"
    by (simp add: gen_loop_nonpos)
qed

text \<open>
  The theorem at \<open>glGenTextures(3, out)\<close> after one \<open>glCreateProgram\<close>: the counter is 2, and
  the array receives 2, 3, 4; \<open>glGenTextures(0, NULL)\<close> in the same state returns and leaves
  the counter at 2.
\<close>

theorem generate_writes_consecutive_witness:
  "glGenTextures \<in> set generate_functions \<and> 0 \<le> sint (3 :: 32 word) \<and>
   run [Shader CreateProgram] (init_state zero_heap) =
     Inr \<lparr>fake_id = 2, heap = zero_heap,
          stderr = [(''[gl_nullify] glCreateProgram() -> %u'' @ [CHR 0x0A], [U 1])]\<rparr> \<and>
   (\<exists>s'. glGenTextures 3 (Ptr 0)
            \<lparr>fake_id = 2, heap = zero_heap,
             stderr = [(''[gl_nullify] glCreateProgram() -> %u'' @ [CHR 0x0A], [U 1])]\<rparr> = Inr s' \<and>
          heap s' 0 = 2 \<and> heap s' 1 = 3 \<and> heap s' 2 = 4 \<and> heap s' 3 = 0 \<and> fake_id s' = 5 \<and>
          heap s' 0 \<notin> set (emitted [Shader CreateProgram] (init_state zero_heap))) \<and>
   (\<exists>s'. glGenTextures 0 NULL
            \<lparr>fake_id = 2, heap = zero_heap,
             stderr = [(''[gl_nullify] glCreateProgram() -> %u'' @ [CHR 0x0A], [U 1])]\<rparr> = Inr s' \<and>
          heap s' = zero_heap \<and> fake_id s' = 2)"
proof -
  let ?s = "\<lparr>fake_id = 2, heap = zero_heap,
            stderr = [(''[gl_nullify] glCreateProgram() -> %u'' @ [CHR 0x0A], [U 1])]\<rparr>"
  have g: "glGenTextures \<in> set generate_functions" by (simp add: generate_functions_def)
  have n: "0 \<le> sint (3 :: 32 word)" by simp
  have r: "run [Shader CreateProgram] (init_state zero_heap) = Inr ?s"
    by (simp add: init_state_def glCreateProgram_def LOG_def Let_def)
  have e: "emitted [Shader CreateProgram] (init_state zero_heap) = [1]"
    by (simp add: init_state_def glCreateProgram_def LOG_def Let_def issued_def)
  note inst = generate_writes_consecutive [OF g n r, of 0]
  from inst have at_null: "\<exists>s'. glGenTextures 0 NULL ?s = Inr s' \<and> heap s' = zero_heap \<and> fake_id s' = 2"
    by simp
  from inst
  obtain s' where s': "glGenTextures 3 (Ptr 0) ?s = Inr s'"
    "\<forall>i < nat (sint (3 :: 32 word)). heap s' (0 + i) = fake_id ?s + of_nat i"
    "\<forall>b. b < 0 \<or> 0 + nat (sint (3 :: 32 word)) \<le> b \<longrightarrow> heap s' b = heap ?s b"
    "fake_id s' = fake_id ?s + 3"
    "length (emitted [Shader CreateProgram] (init_state zero_heap)) + nat (sint (3 :: 32 word)) \<le> 2 ^ 32 \<longrightarrow>
       (\<forall>i < nat (sint (3 :: 32 word)). heap s' (0 + i) \<notin> set (emitted [Shader CreateProgram] (init_state zero_heap)))"
    by blast
  have "heap s' 0 = 2" using s'(2) [rule_format, of 0] by simp
  moreover have "heap s' 1 = 3" using s'(2) [rule_format, of 1] by simp
  moreover have "heap s' 2 = 4" using s'(2) [rule_format, of 2] by (simp add: numeral_2_eq_2)
  moreover have "heap s' 3 = 0" using s'(3) [rule_format, of 3] by (simp add: zero_heap_def)
  moreover have "fake_id s' = 5" using s'(4) by simp
  moreover have "heap s' 0 \<notin> set (emitted [Shader CreateProgram] (init_state zero_heap))"
    using s'(5) unfolding e by simp
  ultimately show ?thesis using g n r s'(1) at_null by blast
qed

text \<open>
  Claim C2 as stated fails after a wrap: following \<open>2 ^ 32\<close> calls of \<open>glCreateProgram\<close>
  the counter is 1 again, and \<open>glGenTextures(3, out)\<close> writes 1, 2, 3, although 1 was the
  first identifier of the run.
\<close>

theorem generate_reissues_after_wrap:
  "emitted (replicate 4294967296 (Shader CreateProgram) @ [Texture (GenTextures 3 (Ptr 0))])
     (init_state zero_heap) =
   emitted (replicate 4294967296 (Shader CreateProgram)) (init_state zero_heap) @ [1, 2, 3] \<and>
   emitted (replicate 4294967296 (Shader CreateProgram)) (init_state zero_heap) ! 0 = 1"
proof
  let ?H = "replicate 4294967296 (Shader CreateProgram)"
  obtain s' where s': "run ?H (init_state zero_heap) = Inr s'"
    "fake_id s' = fake_id (init_state zero_heap) + of_nat 4294967296"
    using run_replicate_create [of 4294967296 "init_state zero_heap"] by blast
  then have k: "fake_id s' = 1" by (simp add: init_state_def)
  have "emitted [Texture (GenTextures 3 (Ptr 0))] s' = [1, 2, 3]"
    using k by (simp add: glGenTextures_def gen_loop_from_0 void_or_fault_def issued_def
        out_cells_def filled_def upt_rec)
  with emitted_append [OF s'(1)]
  show "emitted (?H @ [Texture (GenTextures 3 (Ptr 0))]) (init_state zero_heap) =
        emitted ?H (init_state zero_heap) @ [1, 2, 3]" by simp
  have xs: "emitted ?H (init_state zero_heap) = map (\<lambda>i. (1 :: 32 word) + of_nat i) [0..<4294967296]"
    by (simp add: emitted_replicate_create init_state_def)
  show "emitted ?H (init_state zero_heap) ! 0 = 1"
    unfolding xs by (subst nth_map) simp_all
qed

section \<open>Queries\<close>

lemma store_deref: "store (Ptr a) 0 v s = Inr (s\<lparr>heap := (heap s)(a := v)\<rparr>)"
  by (simp add: store_def)

text \<open>
  Claim C3. In the state left by any call history, whatever it contains (in particular
  with or without \<open>glShaderSource\<close>, \<open>glCompileShader\<close> or \<open>glLinkProgram\<close>), the
  compile-status query \<open>glGetShaderiv(shader, 0x8B81, params)\<close> and the link-status query
  \<open>glGetProgramiv(program, 0x8B82, params)\<close> return and have written 1 to the cell
  \<open>params\<close> points to.
\<close>

theorem status_queries_report_success:
  assumes "run cs (init_state h) = Inr s"
  shows "(\<exists>s'. glGetShaderiv shader 0x8B81 (Ptr a) s = Inr s' \<and> heap s' a = 1) \<and>
         (\<exists>s'. glGetProgramiv program 0x8B82 (Ptr a) s = Inr s' \<and> heap s' a = 1)"
  by (simp add: glGetShaderiv_def glGetProgramiv_def Let_def store_deref)

text \<open>
  The theorem at the history of one \<open>glCreateShader\<close> call and no compile or link: both
  queries still write 1.
\<close>

theorem status_queries_report_success_witness:
  "run [Shader (CreateShader 0x8B31)] (init_state zero_heap) =
     Inr \<lparr>fake_id = 2, heap = zero_heap,
          stderr = [(''[gl_nullify] glCreateShader(type=0x%x) -> %u'' @ [CHR 0x0A],
                     [I 0x8B31, U 1])]\<rparr> \<and>
   (\<exists>s'. glGetShaderiv 1 0x8B81 (Ptr 0)
            \<lparr>fake_id = 2, heap = zero_heap,
             stderr = [(''[gl_nullify] glCreateShader(type=0x%x) -> %u'' @ [CHR 0x0A],
                        [I 0x8B31, U 1])]\<rparr> = Inr s' \<and> heap s' 0 = 1) \<and>
   (\<exists>s'. glGetProgramiv 1 0x8B82 (Ptr 0)
            \<lparr>fake_id = 2, heap = zero_heap,
             stderr = [(''[gl_nullify] glCreateShader(type=0x%x) -> %u'' @ [CHR 0x0A],
                        [I 0x8B31, U 1])]\<rparr> = Inr s' \<and> heap s' 0 = 1)"
proof -
  have r: "run [Shader (CreateShader 0x8B31)] (init_state zero_heap) =
     Inr \<lparr>fake_id = 2, heap = zero_heap,
          stderr = [(''[gl_nullify] glCreateShader(type=0x%x) -> %u'' @ [CHR 0x0A],
                     [I 0x8B31, U 1])]\<rparr>"
    by (simp add: init_state_def glCreateShader_def LOG_def Let_def)
  from r status_queries_report_success [OF r, of 1 0 1] show ?thesis by blast
qed

lemma returns_GetError:
  "i < length (returns cs s) \<Longrightarrow> cs ! i = Query GetError \<Longrightarrow> returns cs s ! i = RInt 0"
proof (induction cs arbitrary: s i)
  case Nil
  then show ?case by simp
next
  case (Cons c cs)
  show ?case
  proof (cases "exec c s")
    case (Inl f)
    with Cons.prems show ?thesis by simp
  next
    case (Inr x)
    obtain r s' where x: "x = (r, s')" by (cases x)
    show ?thesis
    proof (cases i)
      case 0
      with Cons.prems Inr x show ?thesis by (simp add: glGetError_def)
    next
      case (Suc j)
      with Cons.prems Inr x Cons.IH [of j s'] show ?thesis by simp
    qed
  qed
qed

text \<open>
  Claim C4. \<open>glGetError\<close> returns 0 from every state and changes nothing; so in any run,
  from any state, each \<open>glGetError\<close> call of the history returns 0, wherever and however
  often it occurs.
\<close>

theorem error_query_no_error:
  "glGetError s = (0, s) \<and>
   (\<forall>i < length (returns cs s). cs ! i = Query GetError \<longrightarrow> returns cs s ! i = RInt 0)"
  by (simp add: glGetError_def returns_GetError)

text \<open>The theorem at a history that asks twice, around a \<open>glCreateProgram\<close>.\<close>

theorem error_query_no_error_witness:
  "2 < length (returns [Query GetError, Shader CreateProgram, Query GetError]
                 (init_state zero_heap)) \<and>
   [Query GetError, Shader CreateProgram, Query GetError] ! 2 = Query GetError \<and>
   returns [Query GetError, Shader CreateProgram, Query GetError] (init_state zero_heap) ! 2 =
     RInt 0"
proof -
  let ?cs = "[Query GetError, Shader CreateProgram, Query GetError]"
  have l: "2 < length (returns ?cs (init_state zero_heap))"
    by (simp add: glGetError_def glCreateProgram_def Let_def)
  have c: "?cs ! 2 = Query GetError" by simp
  from error_query_no_error [of "init_state zero_heap" ?cs] l c
  have "returns ?cs (init_state zero_heap) ! 2 = RInt 0" by blast
  with l c show ?thesis by blast
qed

text \<open>
  Claim C5. For every target and in every state, \<open>glCheckFramebufferStatus\<close> returns
  \<open>0x8CD5\<close>, the value of \<open>GL_FRAMEBUFFER_COMPLETE\<close>.
\<close>

theorem framebuffer_always_complete:
  "fst (glCheckFramebufferStatus target s) = 0x8CD5"
  by (simp add: glCheckFramebufferStatus_def)

text \<open>
  Claim C6. \<open>glGetString\<close> returns \<open>"GL Nullify"\<close> for \<open>0x1F00\<close>, \<open>"Null Renderer"\<close> for
  \<open>0x1F01\<close>, \<open>"4.5"\<close> for \<open>0x1F02\<close>, the empty string for \<open>0x1F03\<close>, and the empty
  string for every other name.
\<close>

theorem string_query_values:
  "fst (glGetString 0x1F00 s) = ''GL Nullify'' \<and>
   fst (glGetString 0x1F01 s) = ''Null Renderer'' \<and>
   fst (glGetString 0x1F02 s) = ''4.5'' \<and>
   fst (glGetString 0x1F03 s) = '''' \<and>
   (name \<notin> {0x1F00, 0x1F01, 0x1F02, 0x1F03} \<longrightarrow> fst (glGetString name s) = '''')"
  by (simp add: glGetString_def Let_def)

text \<open>The theorem at the unrecognised name \<open>0x1F04\<close>.\<close>

theorem string_query_values_witness:
  "(0x1F04 :: 32 word) \<notin> {0x1F00, 0x1F01, 0x1F02, 0x1F03} \<and>
   fst (glGetString 0x1F04 (init_state zero_heap)) = ''''"
  using string_query_values [of "init_state zero_heap" "0x1F04"] by simp

text \<open>
  Claim C7. For every parameter name, \<open>glGetIntegerv\<close> with a non-null output pointer
  returns, having written 1 to the cell pointed to and nothing else; with the null
  pointer it returns without a fault and memory is as before.
\<close>

theorem integer_query_default:
  "(\<exists>s'. glGetIntegerv pname (Ptr a) s = Inr s' \<and> heap s' = (heap s)(a := 1) \<and>
          fake_id s' = fake_id s) \<and>
   (\<exists>s'. glGetIntegerv pname NULL s = Inr s' \<and> heap s' = heap s \<and> fake_id s' = fake_id s)"
  by (simp add: glGetIntegerv_def Let_def store_deref)

section \<open>Calls that allocate nothing\<close>

lemma exec_non_allocating:
  assumes "\<not> allocating c"
  shows "\<exists>r s'. exec c s = Inr (r, s') \<and> fake_id s' = fake_id s \<and>
           (\<forall>b. query_out c \<noteq> Ptr b \<longrightarrow> heap s' b = heap s b)"
proof (cases c)
  case (Draw x)
  then show ?thesis by (cases x) (simp_all add: void_def noop_defs)
next
  case (Frame x)
  then show ?thesis by (cases x) (simp_all add: void_def noop_defs)
next
  case (Texture x)
  with assms show ?thesis by (cases x) (simp_all add: void_def noop_defs allocating_def)
next
  case (Buffer x)
  with assms show ?thesis by (cases x) (simp_all add: void_def noop_defs allocating_def)
next
  case (Shader x)
  with assms show ?thesis by (cases x) (simp_all add: void_def noop_defs allocating_def)
next
  case (VAO x)
  with assms show ?thesis by (cases x) (simp_all add: void_def noop_defs allocating_def)
next
  case (State x)
  then show ?thesis by (cases x) (simp_all add: void_def noop_defs)
next
  case (Framebuffer x)
  with assms show ?thesis
    by (cases x)
      (simp_all add: void_def noop_defs allocating_def glCheckFramebufferStatus_def)
next
  case (Query x)
  show ?thesis
  proof (cases x)
    case (GetIntegerv pname params)
    with Query show ?thesis
      by (cases params)
        (simp_all add: query_out_def glGetIntegerv_def Let_def void_or_fault_def store_deref)
  next
    case (GetString name)
    with Query show ?thesis
      by (simp add: glGetString_def Let_def)
  next
    case GetError
    with Query show ?thesis by (simp add: glGetError_def)
  next
    case (GetShaderiv shader pname params)
    with Query show ?thesis
      by (cases params)
        (simp_all add: query_out_def glGetShaderiv_def Let_def void_or_fault_def store_deref)
  next
    case (GetProgramiv program pname params)
    with Query show ?thesis
      by (cases params)
        (simp_all add: query_out_def glGetProgramiv_def Let_def void_or_fault_def store_deref)
  qed
qed

lemma is_delete_frame:
  assumes "is_delete c"
  shows "\<not> allocating c \<and> query_out c = NULL"
proof (cases c)
  case (Draw x) with assms show ?thesis by (simp add: is_delete_def)
next
  case (Frame x) with assms show ?thesis by (simp add: is_delete_def)
next
  case (Texture x) with assms show ?thesis
    by (cases x) (simp_all add: is_delete_def allocating_def query_out_def)
next
  case (Buffer x) with assms show ?thesis
    by (cases x) (simp_all add: is_delete_def allocating_def query_out_def)
next
  case (Shader x) with assms show ?thesis
    by (cases x) (simp_all add: is_delete_def allocating_def query_out_def)
next
  case (VAO x) with assms show ?thesis
    by (cases x) (simp_all add: is_delete_def allocating_def query_out_def)
next
  case (State x) with assms show ?thesis by (simp add: is_delete_def)
next
  case (Framebuffer x) with assms show ?thesis
    by (cases x) (simp_all add: is_delete_def allocating_def query_out_def)
next
  case (Query x) with assms show ?thesis by (simp add: is_delete_def)
qed

text \<open>
  Claim C8. A history made of delete calls only (\<open>glDeleteTextures\<close>, \<open>glDeleteBuffers\<close>,
  \<open>glDeleteShader\<close>, \<open>glDeleteProgram\<close>, \<open>glDeleteVertexArrays\<close>, \<open>glDeleteFramebuffers\<close>),
  of any length and with any arguments, runs to its end without a fault and leaves the
  identifier counter and the caller's memory unchanged.
\<close>

theorem deletes_leave_counter:
  assumes "\<forall>c \<in> set cs. is_delete c"
  shows "\<exists>s'. run cs s = Inr s' \<and> fake_id s' = fake_id s \<and> heap s' = heap s"
  using assms
proof (induction cs arbitrary: s)
  case Nil
  show ?case by simp
next
  case (Cons c cs)
  then have d: "\<not> allocating c" "query_out c = NULL"
    using is_delete_frame [of c] by simp_all
  from exec_non_allocating [OF d(1), of s] d(2)
  obtain r s1 where e: "exec c s = Inr (r, s1)" "fake_id s1 = fake_id s" "heap s1 = heap s"
    by (auto intro: ext)
  from Cons.IH [of s1] Cons.prems
  obtain s' where "run cs s1 = Inr s'" "fake_id s' = fake_id s1" "heap s' = heap s1"
    by auto
  with e show ?case by simp
qed

text \<open>
  The theorem at seven deletes, one of them repeated, on identifiers that were never
  issued.
\<close>

theorem deletes_leave_counter_witness:
  "list_all is_delete
     [Texture (DeleteTextures 1 (Ptr 0)), Texture (DeleteTextures 1 (Ptr 0)),
      Buffer (DeleteBuffers 2 NULL), Shader (DeleteShader 77),
      Shader (DeleteProgram 0), VAO (DeleteVertexArrays (- 1) (Ptr 3)),
      Framebuffer (DeleteFramebuffers 1 (Ptr 0))] \<and>
   (\<exists>s'. run [Texture (DeleteTextures 1 (Ptr 0)), Texture (DeleteTextures 1 (Ptr 0)),
              Buffer (DeleteBuffers 2 NULL), Shader (DeleteShader 77),
              Shader (DeleteProgram 0), VAO (DeleteVertexArrays (- 1) (Ptr 3)),
              Framebuffer (DeleteFramebuffers 1 (Ptr 0))] (init_state zero_heap) = Inr s' \<and>
          fake_id s' = 1 \<and> heap s' = zero_heap)"
proof -
  let ?cs = "[Texture (DeleteTextures 1 (Ptr 0)), Texture (DeleteTextures 1 (Ptr 0)),
              Buffer (DeleteBuffers 2 NULL), Shader (DeleteShader 77),
              Shader (DeleteProgram 0), VAO (DeleteVertexArrays (- 1) (Ptr 3)),
              Framebuffer (DeleteFramebuffers 1 (Ptr 0))]"
  have d: "\<forall>c \<in> set ?cs. is_delete c" by (simp add: is_delete_def)
  have l: "list_all is_delete ?cs" by (simp add: is_delete_def)
  from deletes_leave_counter [OF d, of "init_state zero_heap"] l
  show ?thesis by (simp add: init_state_def)
qed

text \<open>
  Claim C9, as the code has it. Every call other than the six allocating ones returns
  and leaves the identifier counter unchanged. It leaves the caller's memory unchanged
  too, except for the one cell that a non-null output pointer of \<open>glGetIntegerv\<close>,
  \<open>glGetShaderiv\<close> or \<open>glGetProgramiv\<close> points to.
\<close>

theorem non_allocating_frame:
  assumes "\<not> allocating c"
  shows "\<exists>r s'. exec c s = Inr (r, s') \<and> fake_id s' = fake_id s \<and>
           (\<forall>b. query_out c \<noteq> Ptr b \<longrightarrow> heap s' b = heap s b)"
  by (rule exec_non_allocating [OF assms])

text \<open>
  The theorem at \<open>glGetIntegerv\<close> with a pointer to cell 5: the counter stays 1 and
  cell 0 stays 0.
\<close>

theorem non_allocating_frame_witness:
  "\<not> allocating (Query (GetIntegerv 0x0D33 (Ptr 5))) \<and>
   query_out (Query (GetIntegerv 0x0D33 (Ptr 5))) \<noteq> Ptr 0 \<and>
   (\<exists>r s'. exec (Query (GetIntegerv 0x0D33 (Ptr 5))) (init_state zero_heap) = Inr (r, s') \<and>
           fake_id s' = 1 \<and> heap s' 0 = 0)"
proof -
  let ?c = "Query (GetIntegerv 0x0D33 (Ptr 5))"
  have a: "\<not> allocating ?c" by (simp add: allocating_def)
  have q: "query_out ?c \<noteq> Ptr 0" by (simp add: query_out_def)
  from non_allocating_frame [OF a, of "init_state zero_heap"]
  obtain r s' where e: "exec ?c (init_state zero_heap) = Inr (r, s')"
    "fake_id s' = fake_id (init_state zero_heap)"
    "\<forall>b. query_out ?c \<noteq> Ptr b \<longrightarrow> heap s' b = heap (init_state zero_heap) b"
    by blast
  from e(3) q have "heap s' 0 = 0" by (simp add: init_state_def zero_heap_def)
  moreover from e(2) have "fake_id s' = 1" by (simp add: init_state_def)
  ultimately show ?thesis using a q e(1) by blast
qed

text \<open>
  Claim C9 as stated fails for the queries: \<open>glGetIntegerv\<close>, which allocates nothing,
  writes 1 through its output pointer.
\<close>

theorem query_writes_caller_memory:
  "\<not> allocating (Query (GetIntegerv 0x0D33 (Ptr 0))) \<and>
   map_sum id (heap \<circ> snd) (exec (Query (GetIntegerv 0x0D33 (Ptr 0))) (init_state zero_heap)) =
     Inr (zero_heap(0 := 1)) \<and>
   (zero_heap(0 := 1)) 0 \<noteq> zero_heap 0"
  by (simp add: allocating_def glGetIntegerv_def Let_def void_or_fault_def store_deref
      init_state_def zero_heap_def)

text \<open>
  Claim C10. A generate function called with a count \<open>n \<le> 0\<close> returns without a fault
  for every output pointer, the null pointer included, and leaves the caller's memory and
  the identifier counter unchanged.
\<close>

theorem generate_nonpositive_count:
  assumes "g \<in> set generate_functions" and "sint n \<le> 0"
  shows "\<exists>s'. g n p s = Inr s' \<and> heap s' = heap s \<and> fake_id s' = fake_id s"
proof -
  obtain fmt where "g n p s = gen_loop 0 n p (LOG fmt [I n] s)"
    using generate_functions_loop [OF assms(1)] by blast
  then show ?thesis by (simp add: gen_loop_nonpos [OF assms(2)])
qed

text \<open>The theorem at \<open>glGenVertexArrays(-1, NULL)\<close>.\<close>

theorem generate_nonpositive_count_witness:
  "glGenVertexArrays \<in> set generate_functions \<and> sint (- 1 :: 32 word) \<le> 0 \<and>
   (\<exists>s'. glGenVertexArrays (- 1) NULL (init_state zero_heap) = Inr s' \<and>
          heap s' = zero_heap \<and> fake_id s' = 1)"
proof -
  have g: "glGenVertexArrays \<in> set generate_functions" by (simp add: generate_functions_def)
  have n: "sint (- 1 :: 32 word) \<le> 0" by simp
  from generate_nonpositive_count [OF g n, of NULL "init_state zero_heap"] g n
  show ?thesis by (simp add: init_state_def)
qed

end
